theory Spec2Isabelle
  imports Main
begin

section \<open>Authentication core of Sistema Move Marias\<close>

text \<open>
  The development embeds \<^verbatim>\<open>backend/app/models/usuario.py\<close>,
  \<^verbatim>\<open>backend/app/routes/auth.py\<close>, the JWT callbacks of
  \<^verbatim>\<open>backend/app/extensions.py\<close> and the settings of
  \<^verbatim>\<open>backend/app/config.py\<close> that these read.

  Conventions. A \<^verbatim>\<open>datetime\<close> is a number of seconds and a \<^verbatim>\<open>timedelta\<close> a
  difference of two of them. A Python exception is a value of type \<open>error\<close>. The
  Portuguese response messages are written without their accents.
\<close>

subsection \<open>Python values the code relies on\<close>

type_synonym datetime = int

datatype error = TypeError | AttributeError | ValueError

text \<open>
  A configuration entry is a number, a boolean or a \<^verbatim>\<open>timedelta\<close> (in seconds).
\<close>

datatype config_value = IntVal int | BoolVal bool | TimedeltaVal int

type_synonym config = "string \<rightharpoonup> config_value"

text \<open>\<^verbatim>\<open>d.get(key, default)\<close> and \<^verbatim>\<open>getattr(Config, key, default)\<close>.\<close>

definition config_get :: "config \<Rightarrow> string \<Rightarrow> config_value \<Rightarrow> config_value" where
  "config_get cfg key dflt = (case cfg key of None \<Rightarrow> dflt | Some v \<Rightarrow> v)"

text \<open>
  \<^verbatim>\<open>timedelta(hours=v)\<close>, \<^verbatim>\<open>timedelta(days=v)\<close>, \<^verbatim>\<open>timedelta(minutes=v)\<close>: \<open>v\<close> must be
  a number (a \<^verbatim>\<open>bool\<close> is one in Python); a \<^verbatim>\<open>timedelta\<close> there raises
  \<^verbatim>\<open>TypeError: unsupported type for timedelta hours component\<close>.
\<close>

fun timedelta :: "int \<Rightarrow> config_value \<Rightarrow> error + int" where
  "timedelta unit (IntVal n) = Inr (n * unit)"
| "timedelta unit (BoolVal b) = Inr (if b then unit else 0)"
| "timedelta unit (TimedeltaVal d) = Inl TypeError"

definition timedelta_minutes :: "config_value \<Rightarrow> error + int" where
  "timedelta_minutes v = timedelta 60 v"

definition timedelta_hours :: "config_value \<Rightarrow> error + int" where
  "timedelta_hours v = timedelta 3600 v"

definition timedelta_days :: "config_value \<Rightarrow> error + int" where
  "timedelta_days v = timedelta 86400 v"

text \<open>A configuration entry used as a number in a comparison with an integer.\<close>

fun number_of :: "config_value \<Rightarrow> error + int" where
  "number_of (IntVal n) = Inr n"
| "number_of (BoolVal b) = Inr (if b then 1 else 0)"
| "number_of (TimedeltaVal d) = Inl TypeError"

text \<open>Truth value of a configuration entry, as \<^verbatim>\<open>if app.config.get(...)\<close> reads it.\<close>

fun truthy :: "config_value \<Rightarrow> bool" where
  "truthy (IntVal n) = (n \<noteq> 0)"
| "truthy (BoolVal b) = b"
| "truthy (TimedeltaVal d) = (d \<noteq> 0)"

text \<open>
  The attributes of class \<^verbatim>\<open>Config\<close> that the authentication code reads: the JWT
  lifetimes are \<^verbatim>\<open>timedelta(hours=24)\<close> and \<^verbatim>\<open>timedelta(days=30)\<close>, the lockout
  settings are the integers 5 and 15 (their defaults when the environment sets nothing).
\<close>

definition Config :: config where
  "Config =
     [''JWT_ACCESS_TOKEN_EXPIRES'' \<mapsto> TimedeltaVal (24 * 3600),
      ''JWT_REFRESH_TOKEN_EXPIRES'' \<mapsto> TimedeltaVal (30 * 86400),
      ''LOGIN_ATTEMPT_TIMEOUT'' \<mapsto> IntVal 15,
      ''MAX_LOGIN_ATTEMPTS'' \<mapsto> IntVal 5]"

text \<open>\<^verbatim>\<open>str.lower()\<close> and \<^verbatim>\<open>str.strip()\<close> on ASCII text.\<close>

definition lower_char :: "char \<Rightarrow> char" where
  "lower_char c =
     (case map_of (zip ''ABCDEFGHIJKLMNOPQRSTUVWXYZ'' ''abcdefghijklmnopqrstuvwxyz'') c of
        None \<Rightarrow> c
      | Some l \<Rightarrow> l)"

definition lower :: "string \<Rightarrow> string" where
  "lower s = map lower_char s"

definition is_space :: "char \<Rightarrow> bool" where
  "is_space c = (let n = (of_char c :: nat) in n = 32 \<or> (9 \<le> n \<and> n \<le> 13) \<or> (28 \<le> n \<and> n \<le> 31))"

definition strip :: "string \<Rightarrow> string" where
  "strip s = rev (dropWhile is_space (rev (dropWhile is_space s)))"

text \<open>\<^verbatim>\<open>sub in s\<close> on strings.\<close>

fun str_in :: "string \<Rightarrow> string \<Rightarrow> bool" where
  "str_in sub [] = (sub = [])"
| "str_in sub (c # cs) = (take (length sub) (c # cs) = sub \<or> str_in sub cs)"

subsection \<open>The password hashing library\<close>

text \<open>
  \<^verbatim>\<open>flask_bcrypt\<close> is not part of the repository; the model takes it as a parameter.
  \<open>generate_password_hash\<close> gets the salt it draws as an argument and may raise.
\<close>

record bcrypt_lib =
  generate_password_hash :: "string \<Rightarrow> string \<Rightarrow> error + string"
  check_password_hash :: "string \<Rightarrow> string \<Rightarrow> bool"

text \<open>What the library promises: a hash it produced for a password checks against it.\<close>

definition bcrypt_contract :: "bcrypt_lib \<Rightarrow> bool" where
  "bcrypt_contract B =
     (\<forall>salt senha h. generate_password_hash B salt senha = Inr h \<longrightarrow> check_password_hash B h senha)"

subsection \<open>Model \<^verbatim>\<open>Usuario\<close>\<close>

datatype TipoUsuarioEnum = ADMIN | PROFISSIONAL

text \<open>\<^verbatim>\<open>TipoUsuarioEnum.value\<close>.\<close>

fun tipo_value :: "TipoUsuarioEnum \<Rightarrow> string" where
  "tipo_value ADMIN = ''admin''"
| "tipo_value PROFISSIONAL = ''profissional''"

text \<open>
  The columns of table \<^verbatim>\<open>usuarios\<close>; \<^verbatim>\<open>data_criacao\<close> and \<^verbatim>\<open>data_atualizacao\<close>
  are audit stamps no authentication code reads and are left out. \<^verbatim>\<open>id\<close> is the text
  of the UUID, as \<^verbatim>\<open>str(usuario.id)\<close> gives it. The three columns without
  \<^verbatim>\<open>nullable=False\<close> may hold \<^verbatim>\<open>None\<close>.
\<close>

record Usuario =
  usuario_id :: string
  nome :: string
  email :: string
  senha_hash :: string
  tipo_usuario :: TipoUsuarioEnum
  ativo :: bool
  ultimo_login :: "datetime option"
  tentativas_login :: "int option"
  bloqueado_ate :: "datetime option"

definition set_password :: "bcrypt_lib \<Rightarrow> string \<Rightarrow> string \<Rightarrow> Usuario \<Rightarrow> error + Usuario" where
  "set_password B salt senha u =
     (case generate_password_hash B salt senha of
        Inl e \<Rightarrow> Inl e
      | Inr h \<Rightarrow> Inr (u\<lparr>senha_hash := h\<rparr>))"

definition check_password :: "bcrypt_lib \<Rightarrow> Usuario \<Rightarrow> string \<Rightarrow> bool" where
  "check_password B u senha = check_password_hash B (senha_hash u) senha"

definition is_admin :: "Usuario \<Rightarrow> bool" where
  "is_admin u = (tipo_usuario u = ADMIN)"

definition is_active :: "Usuario \<Rightarrow> bool" where
  "is_active u = ativo u"

definition is_blocked :: "datetime \<Rightarrow> Usuario \<Rightarrow> bool" where
  "is_blocked now u = (case bloqueado_ate u of None \<Rightarrow> False | Some t \<Rightarrow> now < t)"

text \<open>
  \<^verbatim>\<open>increment_login_attempts\<close>: \<^verbatim>\<open>self.tentativas_login += 1\<close> raises on \<^verbatim>\<open>None\<close>;
  the comparison with \<^verbatim>\<open>max_attempts\<close> raises when that setting is a \<^verbatim>\<open>timedelta\<close>.
\<close>

definition increment_login_attempts :: "config \<Rightarrow> datetime \<Rightarrow> Usuario \<Rightarrow> error + Usuario" where
  "increment_login_attempts cfg now u =
     (case tentativas_login u of
        None \<Rightarrow> Inl TypeError
      | Some n \<Rightarrow>
          (let u1 = u\<lparr>tentativas_login := Some (n + 1)\<rparr>;
               max_attempts = config_get cfg ''MAX_LOGIN_ATTEMPTS'' (IntVal 5);
               timeout_minutes = config_get cfg ''LOGIN_ATTEMPT_TIMEOUT'' (IntVal 15)
           in case number_of max_attempts of
                Inl e \<Rightarrow> Inl e
              | Inr m \<Rightarrow>
                  (if n + 1 \<ge> m
                   then (case timedelta_minutes timeout_minutes of
                           Inl e \<Rightarrow> Inl e
                         | Inr d \<Rightarrow> Inr (u1\<lparr>bloqueado_ate := Some (now + d)\<rparr>))
                   else Inr u1)))"

definition reset_login_attempts :: "datetime \<Rightarrow> Usuario \<Rightarrow> Usuario" where
  "reset_login_attempts now u =
     u\<lparr>tentativas_login := Some 0, bloqueado_ate := None, ultimo_login := Some now\<rparr>"

text \<open>
  \<^verbatim>\<open>login\<close> calls \<^verbatim>\<open>usuario.update_last_login()\<close> and \<^verbatim>\<open>change_password\<close> calls
  \<^verbatim>\<open>usuario.save()\<close>. Class \<^verbatim>\<open>Usuario\<close> defines neither, so each call raises
  \<^verbatim>\<open>AttributeError\<close>.
\<close>

definition update_last_login :: "datetime \<Rightarrow> Usuario \<Rightarrow> error + Usuario" where
  "update_last_login now u = Inl AttributeError"

definition save :: "Usuario \<Rightarrow> error + Usuario" where
  "save u = Inl AttributeError"

text \<open>
  \<^verbatim>\<open>find_by_email\<close> and \<^verbatim>\<open>find_by_id\<close>: the first row that matches.
  \<^verbatim>\<open>find_by_id\<close> parses its argument with \<^verbatim>\<open>uuid.UUID\<close> and answers \<^verbatim>\<open>None\<close> when
  that fails. Identities here are in the canonical spelling \<^verbatim>\<open>str(usuario.id)\<close>, which is
  what \<open>login\<close> and \<open>refresh\<close> put into the tokens they mint, so the lookup compares
  texts; the other spellings of a UUID that \<^verbatim>\<open>uuid.UUID\<close> accepts are outside the
  model.
\<close>

definition find_by_email :: "Usuario list \<Rightarrow> string \<Rightarrow> Usuario option" where
  "find_by_email us em = find (\<lambda>u. email u = strip (lower em)) us"

definition find_by_id :: "Usuario list \<Rightarrow> string \<Rightarrow> Usuario option" where
  "find_by_id us user_id = find (\<lambda>u. usuario_id u = user_id) us"

subsection \<open>Tokens\<close>

text \<open>
  \<^verbatim>\<open>flask_jwt_extended\<close> is not part of the repository. The model keeps what the routes
  rely on: a token carries the claims \<^verbatim>\<open>jti\<close>, \<^verbatim>\<open>sub\<close>, \<^verbatim>\<open>type\<close>, \<^verbatim>\<open>iat\<close> and
  \<^verbatim>\<open>exp\<close>; \<^verbatim>\<open>create_access_token\<close> and \<^verbatim>\<open>create_refresh_token\<close> stamp
  \<^verbatim>\<open>exp = iat + expires_delta\<close> and draw a \<^verbatim>\<open>jti\<close> no earlier token has (here: the
  number of tokens minted so far); \<^verbatim>\<open>@jwt_required\<close> answers through the callbacks that
  \<^verbatim>\<open>setup_jwt_handlers\<close> registers, and through the library's own where none is
  registered. No \<^verbatim>\<open>token_in_blocklist_loader\<close> is registered, so the decorator itself
  never looks at \<^verbatim>\<open>revoked_tokens\<close>.
\<close>

datatype token_type = Access | Refresh

record jwt =
  jti :: nat
  sub :: string
  ttype :: token_type
  iat :: datetime
  exp :: datetime

text \<open>The \<^verbatim>\<open>Authorization\<close> header: absent, not a token this server signed, or a signed token.\<close>

datatype bearer = NoToken | Invalid | Signed jwt

datatype event = SecurityEvent datetime string "(string \<times> string) list"

text \<open>
  The state the handlers share: table \<^verbatim>\<open>usuarios\<close>, the module-level set
  \<^verbatim>\<open>revoked_tokens\<close>, the security log, and the tokens minted so far.
\<close>

record world =
  usuarios :: "Usuario list"
  revoked_tokens :: "nat set"
  security_log :: "event list"
  issued :: "jwt list"

definition create_token :: "token_type \<Rightarrow> string \<Rightarrow> int \<Rightarrow> datetime \<Rightarrow> world \<Rightarrow> jwt \<times> world" where
  "create_token k identity expires_delta t w =
     (let tok = \<lparr>jti = length (issued w), sub = identity, ttype = k, iat = t,
                 exp = t + expires_delta\<rparr>
      in (tok, w\<lparr>issued := issued w @ [tok]\<rparr>))"

definition create_access_token :: "string \<Rightarrow> int \<Rightarrow> datetime \<Rightarrow> world \<Rightarrow> jwt \<times> world" where
  "create_access_token = create_token Access"

definition create_refresh_token :: "string \<Rightarrow> int \<Rightarrow> datetime \<Rightarrow> world \<Rightarrow> jwt \<times> world" where
  "create_refresh_token = create_token Refresh"

definition log_security_event ::
  "datetime \<Rightarrow> string \<Rightarrow> (string \<times> string) list \<Rightarrow> world \<Rightarrow> world" where
  "log_security_event t event_type details w =
     w\<lparr>security_log := security_log w @ [SecurityEvent t event_type details]\<rparr>"

subsection \<open>Responses\<close>

text \<open>
  A response is the pair Flask gets: the JSON body and the status. The routes answer with
  \<^verbatim>\<open>success\<close>, \<^verbatim>\<open>message\<close> and \<^verbatim>\<open>data\<close> (\<open>Api\<close>), the error handlers with
  \<^verbatim>\<open>error\<close> and \<^verbatim>\<open>message\<close> (\<open>Err\<close>), the library's default callbacks with \<^verbatim>\<open>msg\<close>
  alone (\<open>Msg\<close>). \<open>Debug e\<close> is the body the generic handler builds from an exception \<open>e\<close>
  in debug mode: \<^verbatim>\<open>error\<close> is \<^verbatim>\<open>Erro interno\<close>, \<^verbatim>\<open>message\<close> is \<^verbatim>\<open>str(e)\<close> and
  \<^verbatim>\<open>type\<close> is the name of its class.
\<close>

datatype payload =
    NoData
  | LoginData jwt jwt Usuario
  | TokenData jwt
  | UserData Usuario
  | ValidData string

datatype body =
    Api bool string payload
  | Err string string
  | Msg string
  | Debug error
  | Opaque

type_synonym response = "body \<times> nat"

definition expired_token_callback :: response where
  "expired_token_callback =
     (Err ''token_expired'' ''O token de acesso expirou. Por favor, faca login novamente.'', 401)"

text \<open>
  \<^verbatim>\<open>register_error_handlers\<close> runs after \<^verbatim>\<open>init_extensions\<close> and registers its own handler
  for \<^verbatim>\<open>ExpiredSignatureError\<close>, which replaces the one that would call
  \<open>expired_token_callback\<close>: an expired token is answered by this one.
\<close>

definition handle_expired_token_error :: response where
  "handle_expired_token_error = (Err ''Token expirado'' ''Token de acesso expirado'', 401)"

definition invalid_token_callback :: response where
  "invalid_token_callback = (Err ''token_invalid'' ''Token de acesso invalido.'', 401)"

definition missing_token_callback :: response where
  "missing_token_callback =
     (Err ''token_missing'' ''Token de acesso e necessario para acessar este recurso.'', 401)"

definition handle_validation_error :: response where
  "handle_validation_error =
     (Err ''Dados invalidos'' ''Os dados enviados contem erros de validacao'', 400)"

definition handle_not_found :: response where
  "handle_not_found = (Err ''Nao encontrado'' ''O recurso solicitado nao foi encontrado'', 404)"

text \<open>
  The handler registered for \<^verbatim>\<open>Exception\<close>; in debug mode the body carries the text and
  the class name of the exception.
\<close>

definition handle_generic_exception :: "config \<Rightarrow> error \<Rightarrow> response" where
  "handle_generic_exception cfg e =
     (if truthy (config_get cfg ''DEBUG'' (BoolVal False))
      then (Debug e, 500)
      else (Err ''Erro interno do servidor''
              ''Ocorreu um erro interno. Tente novamente mais tarde.'', 500))"

text \<open>
  \<^verbatim>\<open>user_lookup_callback\<close> of \<^verbatim>\<open>setup_jwt_handlers\<close>: the row whose \<^verbatim>\<open>id\<close> is the
  token's \<^verbatim>\<open>sub\<close>, if any. No \<^verbatim>\<open>user_lookup_error_loader\<close> is registered; the library's
  own answers a token without a row.
\<close>

definition user_lookup_callback :: "Usuario list \<Rightarrow> jwt \<Rightarrow> Usuario option" where
  "user_lookup_callback us c = find (\<lambda>u. usuario_id u = sub c) us"

definition user_lookup_error :: "jwt \<Rightarrow> response" where
  "user_lookup_error c = (Msg (''Error loading the user '' @ sub c), 401)"

text \<open>
  \<^verbatim>\<open>@jwt_required(refresh=...)\<close>: the token must be present, signed by this server, not
  expired, of the kind the route asks for, and its account must be in the table.
\<close>

definition jwt_required :: "bool \<Rightarrow> bearer \<Rightarrow> datetime \<Rightarrow> world \<Rightarrow> response + jwt" where
  "jwt_required refresh_wanted b t w =
     (case b of
        NoToken \<Rightarrow> Inl missing_token_callback
      | Invalid \<Rightarrow> Inl invalid_token_callback
      | Signed c \<Rightarrow>
          if exp c \<le> t then Inl handle_expired_token_error
          else if (ttype c = Refresh) \<noteq> refresh_wanted then Inl invalid_token_callback
          else
            (case user_lookup_callback (usuarios w) c of
               None \<Rightarrow> Inl (user_lookup_error c)
             | Some u \<Rightarrow> Inr c))"

subsection \<open>Routes of \<^verbatim>\<open>auth.py\<close>\<close>

text \<open>
  What \<^verbatim>\<open>login_schema.load(request.json)\<close> gives: a validation error, or the two
  fields.
\<close>

datatype login_json = LoadError | Loaded string string

text \<open>
  A route returns the response or the exception that escapes it, and the new state.
\<close>

type_synonym outcome = "(error + response) \<times> world"

definition replace_usuario :: "Usuario \<Rightarrow> Usuario list \<Rightarrow> Usuario list" where
  "replace_usuario u us = map (\<lambda>x. if usuario_id x = usuario_id u then u else x) us"

definition login :: "bcrypt_lib \<Rightarrow> config \<Rightarrow> datetime \<Rightarrow> login_json \<Rightarrow> world \<Rightarrow> outcome" where
  "login B cfg t data w =
     (case data of
        LoadError \<Rightarrow> (Inr handle_validation_error, w)
      | Loaded em senha \<Rightarrow>
          (case find_by_email (usuarios w) em of
             None \<Rightarrow>
               (Inr (Api False ''Email ou senha invalidos'' NoData, 401),
                log_security_event t ''login_failed''
                  [(''email'', em), (''reason'', ''user_not_found'')] w)
           | Some usuario \<Rightarrow>
               if \<not> ativo usuario then
                 (Inr (Api False ''Usuario inativo. Entre em contato com o administrador.'' NoData, 401),
                  log_security_event t ''login_failed''
                    [(''email'', em), (''reason'', ''user_inactive'')] w)
               else if \<not> check_password B usuario senha then
                 (Inr (Api False ''Email ou senha invalidos'' NoData, 401),
                  log_security_event t ''login_failed''
                    [(''email'', em), (''reason'', ''wrong_password'')] w)
               else
                 (case timedelta_hours (config_get cfg ''JWT_ACCESS_TOKEN_EXPIRES'' (IntVal 24)) of
                    Inl e \<Rightarrow> (Inl e, w)
                  | Inr da \<Rightarrow>
                      (case create_access_token (usuario_id usuario) da t w of
                         (access_token, w1) \<Rightarrow>
                           (case timedelta_days
                                   (config_get cfg ''JWT_REFRESH_TOKEN_EXPIRES'' (IntVal 30)) of
                              Inl e \<Rightarrow> (Inl e, w1)
                            | Inr dr \<Rightarrow>
                                (case create_refresh_token (usuario_id usuario) dr t w1 of
                                   (refresh_token, w2) \<Rightarrow>
                                     (case update_last_login t usuario of
                                        Inl e \<Rightarrow> (Inl e, w2)
                                      | Inr usuario' \<Rightarrow>
                                          (Inr (Api True ''Login realizado com sucesso''
                                                  (LoginData access_token refresh_token usuario'), 200),
                                           log_security_event t ''login_success''
                                             [(''user_id'', usuario_id usuario'), (''email'', em),
                                              (''tipo_usuario'', tipo_value (tipo_usuario usuario'))]
                                             (w2\<lparr>usuarios :=
                                                   replace_usuario usuario' (usuarios w2)\<rparr>)))))))))"

definition refresh :: "config \<Rightarrow> datetime \<Rightarrow> bearer \<Rightarrow> world \<Rightarrow> outcome" where
  "refresh cfg t b w =
     (case jwt_required True b t w of
        Inl r \<Rightarrow> (Inr r, w)
      | Inr c \<Rightarrow>
          if jti c \<in> revoked_tokens w then (Inr (Api False ''Token invalido'' NoData, 401), w)
          else
            (case find_by_id (usuarios w) (sub c) of
               None \<Rightarrow> (Inr (Api False ''Usuario nao encontrado ou inativo'' NoData, 401), w)
             | Some usuario \<Rightarrow>
                 if \<not> ativo usuario
                 then (Inr (Api False ''Usuario nao encontrado ou inativo'' NoData, 401), w)
                 else
                   (case timedelta_hours (config_get cfg ''JWT_ACCESS_TOKEN_EXPIRES'' (IntVal 24)) of
                      Inl e \<Rightarrow> (Inl e, w)
                    | Inr da \<Rightarrow>
                        (case create_access_token (sub c) da t w of
                           (new_access_token, w1) \<Rightarrow>
                             (Inr (Api True ''Token renovado com sucesso''
                                     (TokenData new_access_token), 200), w1)))))"

definition logout :: "datetime \<Rightarrow> bearer \<Rightarrow> world \<Rightarrow> outcome" where
  "logout t b w =
     (case jwt_required False b t w of
        Inl r \<Rightarrow> (Inr r, w)
      | Inr c \<Rightarrow>
          (Inr (Api True ''Logout realizado com sucesso'' NoData, 200),
           log_security_event t ''logout'' [(''user_id'', sub c)]
             (w\<lparr>revoked_tokens := insert (jti c) (revoked_tokens w)\<rparr>)))"

definition get_current_user :: "datetime \<Rightarrow> bearer \<Rightarrow> world \<Rightarrow> outcome" where
  "get_current_user t b w =
     (case jwt_required False b t w of
        Inl r \<Rightarrow> (Inr r, w)
      | Inr c \<Rightarrow>
          (case find_by_id (usuarios w) (sub c) of
             None \<Rightarrow> (Inr handle_not_found, w)
           | Some usuario \<Rightarrow>
               (Inr (Api True ''Dados do usuario obtidos com sucesso'' (UserData usuario), 200), w)))"

definition verify_token :: "datetime \<Rightarrow> bearer \<Rightarrow> world \<Rightarrow> outcome" where
  "verify_token t b w =
     (case jwt_required False b t w of
        Inl r \<Rightarrow> (Inr r, w)
      | Inr c \<Rightarrow> (Inr (Api True ''Token valido'' (ValidData (sub c)), 200), w))"

text \<open>
  \<^verbatim>\<open>change_password\<close> reads a JSON object of text fields (a list of pairs with distinct
  keys; a missing key reads as \<^verbatim>\<open>None\<close>). Its body sits in \<^verbatim>\<open>try ... except Exception\<close>,
  which turns every exception into the 500 response.
\<close>

definition internal_error :: response where
  "internal_error = (Api False ''Erro interno do servidor'' NoData, 500)"

definition change_password ::
  "bcrypt_lib \<Rightarrow> string \<Rightarrow> datetime \<Rightarrow> bearer \<Rightarrow> (string \<times> string) list option \<Rightarrow> world \<Rightarrow> outcome" where
  "change_password B salt t b data w =
     (case jwt_required False b t w of
        Inl r \<Rightarrow> (Inr r, w)
      | Inr c \<Rightarrow>
          (case data of
             None \<Rightarrow> (Inr (Api False ''Dados nao fornecidos'' NoData, 400), w)
           | Some d \<Rightarrow>
               if d = [] then (Inr (Api False ''Dados nao fornecidos'' NoData, 400), w)
               else
                 (case (map_of d ''senha_atual'', map_of d ''nova_senha'',
                        map_of d ''confirmar_senha'') of
                    (Some senha_atual, Some nova_senha, Some confirmar_senha) \<Rightarrow>
                      if senha_atual = [] \<or> nova_senha = [] \<or> confirmar_senha = []
                      then (Inr (Api False ''Todos os campos sao obrigatorios'' NoData, 400), w)
                      else if nova_senha \<noteq> confirmar_senha
                      then (Inr (Api False ''Nova senha e confirmacao nao coincidem'' NoData, 400), w)
                      else if length nova_senha < 6
                      then (Inr (Api False ''Nova senha deve ter pelo menos 6 caracteres'' NoData,
                                 400), w)
                      else
                        (case find_by_id (usuarios w) (sub c) of
                           None \<Rightarrow> (Inr handle_not_found, w)
                         | Some usuario \<Rightarrow>
                             if \<not> check_password B usuario senha_atual
                             then (Inr (Api False ''Senha atual incorreta'' NoData, 400), w)
                             else
                               (case set_password B salt nova_senha usuario of
                                  Inl e \<Rightarrow> (Inr internal_error, w)
                                | Inr u1 \<Rightarrow>
                                    (case save u1 of
                                       Inl e \<Rightarrow> (Inr internal_error, w)
                                     | Inr u2 \<Rightarrow>
                                         (Inr (Api True ''Senha alterada com sucesso'' NoData, 200),
                                          log_security_event t ''password_changed''
                                            [(''user_id'', sub c)]
                                            (w\<lparr>usuarios := replace_usuario u2 (usuarios w)\<rparr>)))))
                  | _ \<Rightarrow> (Inr (Api False ''Todos os campos sao obrigatorios'' NoData, 400), w))))"

subsection \<open>Requests\<close>

text \<open>
  The routes of blueprint \<^verbatim>\<open>auth\<close>, and any other place (\<open>Elsewhere\<close>, with the
  endpoint name Flask resolved, if any).
\<close>

datatype route =
    POST_login login_json
  | POST_refresh
  | POST_logout
  | GET_me
  | POST_change_password "(string \<times> string) list option"
  | GET_verify_token
  | Elsewhere "string option"

fun endpoint :: "route \<Rightarrow> string option" where
  "endpoint (POST_login d) = Some ''auth.login''"
| "endpoint POST_refresh = Some ''auth.refresh''"
| "endpoint POST_logout = Some ''auth.logout''"
| "endpoint GET_me = Some ''auth.get_current_user''"
| "endpoint (POST_change_password d) = Some ''auth.change_password''"
| "endpoint GET_verify_token = Some ''auth.verify_token''"
| "endpoint (Elsewhere e) = e"

text \<open>
  A request: where it goes, its \<^verbatim>\<open>Authorization\<close> header, the clock, the salt a
  password change would draw, and \<open>jwt_in_context\<close>: the claims \<^verbatim>\<open>get_jwt()\<close> gives when
  the \<^verbatim>\<open>before_app_request\<close> hook runs, \<^verbatim>\<open>None\<close> when it raises there. The hook runs
  before the route and its \<^verbatim>\<open>@jwt_required\<close>, so no token has been decoded for the
  request yet and \<^verbatim>\<open>get_jwt()\<close> raises: the requests of the examples have \<^verbatim>\<open>None\<close>.
\<close>

record request =
  route :: route
  authorization :: bearer
  jwt_in_context :: "jwt option"
  utcnow :: datetime
  entropy :: string

definition revoked_response :: response where
  "revoked_response = (Api False ''Token foi revogado'' NoData, 401)"

text \<open>The guard \<^verbatim>\<open>request.endpoint and 'auth' in request.endpoint\<close>.\<close>

definition auth_endpoint :: "request \<Rightarrow> bool" where
  "auth_endpoint r =
     (case endpoint (route r) of None \<Rightarrow> False | Some ep \<Rightarrow> ep \<noteq> [] \<and> str_in ''auth'' ep)"

definition check_if_token_revoked :: "world \<Rightarrow> request \<Rightarrow> response option" where
  "check_if_token_revoked w r =
     (if auth_endpoint r
      then None
      else
        (case jwt_in_context r of
           None \<Rightarrow> None
         | Some c \<Rightarrow> if jti c \<in> revoked_tokens w then Some revoked_response else None))"

definition dispatch :: "bcrypt_lib \<Rightarrow> config \<Rightarrow> world \<Rightarrow> request \<Rightarrow> outcome" where
  "dispatch B cfg w r =
     (case route r of
        POST_login d \<Rightarrow> login B cfg (utcnow r) d w
      | POST_refresh \<Rightarrow> refresh cfg (utcnow r) (authorization r) w
      | POST_logout \<Rightarrow> logout (utcnow r) (authorization r) w
      | GET_me \<Rightarrow> get_current_user (utcnow r) (authorization r) w
      | POST_change_password d \<Rightarrow>
          change_password B (entropy r) (utcnow r) (authorization r) d w
      | GET_verify_token \<Rightarrow> verify_token (utcnow r) (authorization r) w
      | Elsewhere e \<Rightarrow> (Inr (Opaque, 200), w))"

text \<open>
  One request through the application: the hook, then the route, then the handler for an
  exception that escaped the route.
\<close>

definition handle_request :: "bcrypt_lib \<Rightarrow> config \<Rightarrow> world \<Rightarrow> request \<Rightarrow> response \<times> world" where
  "handle_request B cfg w r =
     (case check_if_token_revoked w r of
        Some resp \<Rightarrow> (resp, w)
      | None \<Rightarrow>
          (case dispatch B cfg w r of
             (Inl e, w') \<Rightarrow> (handle_generic_exception cfg e, w')
           | (Inr resp, w') \<Rightarrow> (resp, w')))"

fun run :: "bcrypt_lib \<Rightarrow> config \<Rightarrow> world \<Rightarrow> request list \<Rightarrow> world" where
  "run B cfg w [] = w"
| "run B cfg w (r # rs) = run B cfg (snd (handle_request B cfg w r)) rs"

subsection \<open>Example data\<close>

text \<open>
  A stand-in for the hashing library in the worked examples: the hash of a password is the
  password behind a fixed prefix, and the empty password is refused.
\<close>

definition toy_bcrypt :: bcrypt_lib where
  "toy_bcrypt =
     \<lparr>generate_password_hash =
        (\<lambda>salt senha. if senha = [] then Inl ValueError else Inr (''$2b$'' @ senha)),
      check_password_hash = (\<lambda>h senha. h = ''$2b$'' @ senha)\<rparr>"

text \<open>An active account with password \<open>segredo\<close> and a deactivated one.\<close>

definition maria :: Usuario where
  "maria =
     \<lparr>usuario_id = ''u-maria'', nome = ''Maria'', email = ''maria@movemarias.dev'',
      senha_hash = ''$2b$segredo'', tipo_usuario = PROFISSIONAL, ativo = True,
      ultimo_login = None, tentativas_login = Some 0, bloqueado_ate = None\<rparr>"

definition ana :: Usuario where
  "ana =
     \<lparr>usuario_id = ''u-ana'', nome = ''Ana'', email = ''ana@movemarias.dev'',
      senha_hash = ''$2b$outrasenha'', tipo_usuario = ADMIN, ativo = False,
      ultimo_login = None, tentativas_login = Some 0, bloqueado_ate = None\<rparr>"

definition w0 :: world where
  "w0 = \<lparr>usuarios = [maria, ana], revoked_tokens = {}, security_log = [], issued = []\<rparr>"

definition login_request :: "string \<Rightarrow> string \<Rightarrow> datetime \<Rightarrow> request" where
  "login_request em senha t =
     \<lparr>route = POST_login (Loaded em senha), authorization = NoToken, jwt_in_context = None,
      utcnow = t, entropy = []\<rparr>"

text \<open>The two tokens a login of \<open>maria\<close> at time 1000 mints under the built-in lifetimes.\<close>

definition tok_a :: jwt where
  "tok_a = \<lparr>jti = 0, sub = ''u-maria'', ttype = Access, iat = 1000, exp = 1000 + 24 * 3600\<rparr>"

definition tok_r :: jwt where
  "tok_r = \<lparr>jti = 1, sub = ''u-maria'', ttype = Refresh, iat = 1000, exp = 1000 + 30 * 86400\<rparr>"

definition token_request :: "route \<Rightarrow> jwt \<Rightarrow> datetime \<Rightarrow> request" where
  "token_request rt c t =
     \<lparr>route = rt, authorization = Signed c, jwt_in_context = None, utcnow = t, entropy = []\<rparr>"

text \<open>An application configuration whose token lifetimes are plain numbers.\<close>

definition numeric_config :: config where
  "numeric_config =
     [''JWT_ACCESS_TOKEN_EXPIRES'' \<mapsto> IntVal 24, ''JWT_REFRESH_TOKEN_EXPIRES'' \<mapsto> IntVal 30]"

text \<open>
  The account of \<open>maria\<close> after five failures as the model class counts them: locked until
  time 1900.
\<close>

definition maria_bloqueada :: Usuario where
  "maria_bloqueada = maria\<lparr>tentativas_login := Some 5, bloqueado_ate := Some 1900\<rparr>"

definition w_bloqueada :: world where
  "w_bloqueada = w0\<lparr>usuarios := [maria_bloqueada, ana]\<rparr>"

section \<open>Properties\<close>

lemmas example_defs =
  toy_bcrypt_def maria_def ana_def w0_def login_request_def tok_a_def tok_r_def token_request_def
  numeric_config_def maria_bloqueada_def w_bloqueada_def

lemmas string_defs =
  find_by_email_def find_by_id_def lower_def lower_char_def strip_def is_space_def

lemmas route_defs =
  login_def refresh_def logout_def verify_token_def get_current_user_def check_password_def
  update_last_login_def create_access_token_def create_refresh_token_def create_token_def
  log_security_event_def config_get_def timedelta_hours_def timedelta_days_def jwt_required_def
  user_lookup_callback_def

lemmas request_defs =
  handle_request_def dispatch_def check_if_token_revoked_def auth_endpoint_def
  handle_generic_exception_def

subsection \<open>What each route does to the shared state\<close>

lemma login_usuarios: "usuarios (snd (login B cfg t d w)) = usuarios w"
  by (simp add: login_def update_last_login_def create_access_token_def create_refresh_token_def
      create_token_def log_security_event_def Let_def
      split: login_json.splits option.splits sum.splits prod.splits)

lemma login_revoked: "revoked_tokens (snd (login B cfg t d w)) = revoked_tokens w"
  by (simp add: login_def update_last_login_def create_access_token_def create_refresh_token_def
      create_token_def log_security_event_def Let_def
      split: login_json.splits option.splits sum.splits prod.splits)

text \<open>No call of \<open>login\<close> ends in the 200 response: the last step before it always raises.\<close>

lemma login_never_200: "fst (login B cfg t d w) \<noteq> Inr (b, 200)"
  by (simp add: login_def update_last_login_def create_access_token_def create_refresh_token_def
      create_token_def handle_validation_error_def Let_def
      split: login_json.splits option.splits sum.splits prod.splits)

lemma refresh_revoked: "revoked_tokens (snd (refresh cfg t b w)) = revoked_tokens w"
  by (simp add: refresh_def create_access_token_def create_token_def Let_def
      split: option.splits sum.splits prod.splits)

lemma logout_revoked:
  "revoked_tokens (snd (logout t b w)) =
     (case jwt_required False b t w of
        Inl r \<Rightarrow> revoked_tokens w
      | Inr c \<Rightarrow> insert (jti c) (revoked_tokens w))"
  by (simp add: logout_def log_security_event_def split: sum.splits)

lemma get_current_user_world: "snd (get_current_user t b w) = w"
  by (simp add: get_current_user_def split: option.splits sum.splits)

lemma verify_token_world: "snd (verify_token t b w) = w"
  by (simp add: verify_token_def split: sum.splits)

lemma change_password_world: "snd (change_password B salt t b d w) = w"
  by (simp add: change_password_def save_def split: option.splits sum.splits prod.splits)

lemma dispatch_revoked: "revoked_tokens w \<subseteq> revoked_tokens (snd (dispatch B cfg w r))"
  by (cases "route r")
     (auto simp: dispatch_def login_revoked refresh_revoked logout_revoked
        get_current_user_world verify_token_world change_password_world split: sum.splits)

lemma handle_request_revoked:
  "revoked_tokens w \<subseteq> revoked_tokens (snd (handle_request B cfg w r))"
proof (cases "check_if_token_revoked w r")
  case None
  have "snd (handle_request B cfg w r) = snd (dispatch B cfg w r)"
    using None by (simp add: handle_request_def split: prod.splits sum.splits)
  then show ?thesis by (simp add: dispatch_revoked)
next
  case (Some resp)
  then show ?thesis by (simp add: handle_request_def)
qed

lemma run_revoked: "revoked_tokens w \<subseteq> revoked_tokens (run B cfg w rs)"
proof (induction rs arbitrary: w)
  case Nil
  show ?case by simp
next
  case (Cons r rs)
  have "revoked_tokens w \<subseteq> revoked_tokens (snd (handle_request B cfg w r))"
    by (rule handle_request_revoked)
  also have "\<dots> \<subseteq> revoked_tokens (run B cfg (snd (handle_request B cfg w r)) rs)"
    by (rule Cons.IH)
  finally show ?case by simp
qed

subsection \<open>Lockout\<close>

text \<open>
  The model class does implement the lockout: from a counter of 0, the fifth call of
  \<open>increment_login_attempts\<close> under \<open>Config\<close> sets \<open>bloqueado_ate\<close> fifteen minutes ahead,
  and \<open>is_blocked\<close> holds until then.
\<close>

lemma increment_login_attempts_fifth:
  "increment_login_attempts Config t (u\<lparr>tentativas_login := Some 4\<rparr>)
     = Inr (u\<lparr>tentativas_login := Some 5, bloqueado_ate := Some (t + 900)\<rparr>)"
  by (simp add: increment_login_attempts_def Config_def config_get_def timedelta_minutes_def)

lemma increment_login_attempts_below:
  "n < 4 \<Longrightarrow> increment_login_attempts Config t (u\<lparr>tentativas_login := Some n\<rparr>)
     = Inr (u\<lparr>tentativas_login := Some (n + 1)\<rparr>)"
  by (simp add: increment_login_attempts_def Config_def config_get_def timedelta_minutes_def)

text \<open>Five failed logins, as \<open>login\<close> handles them: five log entries and nothing else.\<close>

lemma five_failures:
  "run toy_bcrypt cfg w0
     (map (login_request ''maria@movemarias.dev'' ''errada'') [1000, 1001, 1002, 1003, 1004])
   = w0\<lparr>security_log :=
          map (\<lambda>t. SecurityEvent t ''login_failed''
                 [(''email'', ''maria@movemarias.dev''), (''reason'', ''wrong_password'')])
            [1000, 1001, 1002, 1003, 1004]\<rparr>"
  by (simp add: example_defs string_defs login_def check_password_def log_security_event_def
      request_defs)

text \<open>
  C1. Five consecutive failed logins should lock the account and a sixth attempt inside the
  lockout window should be rejected as locked. \<open>login\<close> never calls
  \<open>increment_login_attempts\<close> or \<open>is_blocked\<close>: after five wrong passwords for an active
  account the table is as before (counter 0, no \<open>bloqueado_ate\<close>), and the sixth attempt,
  with the right password, passes the credential checks and goes on to mint tokens, where
  it ends in an exception (\<open>TypeError\<close> under \<open>Config\<close>, \<open>AttributeError\<close> under the
  built-in defaults) instead of a rejection for a locked account.
\<close>

theorem login_five_failures_no_lockout:
  "usuarios (run toy_bcrypt Config w0
     (map (login_request ''maria@movemarias.dev'' ''errada'') [1000, 1001, 1002, 1003, 1004]))
     = [maria, ana]
   \<and> tentativas_login maria = Some 0 \<and> bloqueado_ate maria = None
   \<and> fst (login toy_bcrypt Config 1005 (Loaded ''maria@movemarias.dev'' ''segredo'')
        (run toy_bcrypt Config w0
          (map (login_request ''maria@movemarias.dev'' ''errada'') [1000, 1001, 1002, 1003, 1004])))
     = Inl TypeError
   \<and> fst (login toy_bcrypt Map.empty 1005 (Loaded ''maria@movemarias.dev'' ''segredo'')
        (run toy_bcrypt Map.empty w0
          (map (login_request ''maria@movemarias.dev'' ''errada'') [1000, 1001, 1002, 1003, 1004])))
     = Inl AttributeError"
  unfolding five_failures
  by (simp add: example_defs string_defs route_defs Config_def Let_def)

subsection \<open>Successful login\<close>

text \<open>
  C3. A login with the right password for an active account should reset the counter, clear
  \<open>bloqueado_ate\<close>, stamp \<open>ultimo_login\<close> and return the token pair. \<open>login\<close> calls
  \<^verbatim>\<open>usuario.update_last_login()\<close>, which class \<^verbatim>\<open>Usuario\<close> does not define (the method
  that does the reset is \<open>reset_login_attempts\<close>, which no route calls): with the right
  password and numeric token lifetimes the route mints both tokens and then raises
  \<open>AttributeError\<close>. The account keeps its counter of 3 and its stale \<open>bloqueado_ate\<close>,
  \<open>ultimo_login\<close> stays empty, and the caller gets the 500 response instead of the tokens.
  The same holds when the lifetimes are absent from the configuration (the first two
  conjuncts).
\<close>

theorem login_correct_password_raises:
  "login toy_bcrypt Map.empty 1000 (Loaded ''maria@movemarias.dev'' ''segredo'')
     (w0\<lparr>usuarios := [maria\<lparr>tentativas_login := Some 3, bloqueado_ate := Some 500\<rparr>, ana]\<rparr>)
   = (Inl AttributeError,
      w0\<lparr>usuarios := [maria\<lparr>tentativas_login := Some 3, bloqueado_ate := Some 500\<rparr>, ana],
         issued := [tok_a, tok_r]\<rparr>)
   \<and> fst (handle_request toy_bcrypt Map.empty
        (w0\<lparr>usuarios := [maria\<lparr>tentativas_login := Some 3, bloqueado_ate := Some 500\<rparr>, ana]\<rparr>)
        (login_request ''maria@movemarias.dev'' ''segredo'' 1000))
     = (Err ''Erro interno do servidor''
          ''Ocorreu um erro interno. Tente novamente mais tarde.'', 500)
   \<and> login toy_bcrypt numeric_config 1000 (Loaded ''maria@movemarias.dev'' ''segredo'')
        (w0\<lparr>usuarios := [maria\<lparr>tentativas_login := Some 3, bloqueado_ate := Some 500\<rparr>, ana]\<rparr>)
     = (Inl AttributeError,
        w0\<lparr>usuarios := [maria\<lparr>tentativas_login := Some 3, bloqueado_ate := Some 500\<rparr>, ana],
           issued := [tok_a, tok_r]\<rparr>)
   \<and> fst (handle_request toy_bcrypt numeric_config
        (w0\<lparr>usuarios := [maria\<lparr>tentativas_login := Some 3, bloqueado_ate := Some 500\<rparr>, ana]\<rparr>)
        (login_request ''maria@movemarias.dev'' ''segredo'' 1000))
     = (Err ''Erro interno do servidor''
          ''Ocorreu um erro interno. Tente novamente mais tarde.'', 500)"
  by (simp add: example_defs string_defs route_defs request_defs Let_def)

subsection \<open>Token lifetime\<close>


subsection \<open>What a failed login discloses\<close>

text \<open>
  C5, as stated: every failed login outside the locked state gets the one
  invalid-credentials response. It fails for a deactivated account, which gets a message
  of its own.
\<close>

theorem login_inactive_message_counterexample:
  "fst (login toy_bcrypt Config 1000 (Loaded ''ana@movemarias.dev'' ''errada'') w0)
     = Inr (Api False ''Usuario inativo. Entre em contato com o administrador.'' NoData, 401)
   \<and> fst (login toy_bcrypt Config 1000 (Loaded ''ninguem@movemarias.dev'' ''errada'') w0)
     = Inr (Api False ''Email ou senha invalidos'' NoData, 401)
   \<and> fst (login toy_bcrypt Config 1000 (Loaded ''ana@movemarias.dev'' ''errada'') w0)
     \<noteq> fst (login toy_bcrypt Config 1000 (Loaded ''ninguem@movemarias.dev'' ''errada'') w0)"
  by (simp add: example_defs string_defs route_defs Let_def)

text \<open>
  C5, amended. A login with an unknown email and a login with the email of an active
  account and a wrong password get the same response, status 401 with the message
  \<^verbatim>\<open>Email ou senha invalidos\<close>, while the security log records \<^verbatim>\<open>user_not_found\<close> for
  the first and \<^verbatim>\<open>wrong_password\<close> for the second. A login for a deactivated account
  gets status 401 with its own message, whatever the password, and the log records
  \<^verbatim>\<open>user_inactive\<close>.
\<close>

theorem login_invalid_credentials_uniform:
  assumes "find_by_email (usuarios w) em1 = None"
    and "find_by_email (usuarios w) em2 = Some u2" and "ativo u2"
    and "\<not> check_password B u2 senha2"
    and "find_by_email (usuarios w) em3 = Some u3" and "\<not> ativo u3"
  shows "login B cfg t (Loaded em1 senha1) w =
           (Inr (Api False ''Email ou senha invalidos'' NoData, 401),
            w\<lparr>security_log := security_log w @
                [SecurityEvent t ''login_failed''
                   [(''email'', em1), (''reason'', ''user_not_found'')]]\<rparr>)
       \<and> login B cfg t (Loaded em2 senha2) w =
           (Inr (Api False ''Email ou senha invalidos'' NoData, 401),
            w\<lparr>security_log := security_log w @
                [SecurityEvent t ''login_failed''
                   [(''email'', em2), (''reason'', ''wrong_password'')]]\<rparr>)
       \<and> login B cfg t (Loaded em3 senha3) w =
           (Inr (Api False ''Usuario inativo. Entre em contato com o administrador.'' NoData, 401),
            w\<lparr>security_log := security_log w @
                [SecurityEvent t ''login_failed''
                   [(''email'', em3), (''reason'', ''user_inactive'')]]\<rparr>)"
  using assms by (simp add: login_def log_security_event_def)

theorem login_invalid_credentials_uniform_witness:
  "find_by_email (usuarios w0) ''ninguem@movemarias.dev'' = None
   \<and> find_by_email (usuarios w0) ''maria@movemarias.dev'' = Some maria \<and> ativo maria
   \<and> \<not> check_password toy_bcrypt maria ''errada''
   \<and> find_by_email (usuarios w0) ''ana@movemarias.dev'' = Some ana \<and> \<not> ativo ana
   \<and> fst (login toy_bcrypt Config 1000 (Loaded ''ninguem@movemarias.dev'' ''segredo'') w0)
     = fst (login toy_bcrypt Config 1000 (Loaded ''maria@movemarias.dev'' ''errada'') w0)
   \<and> fst (login toy_bcrypt Config 1000 (Loaded ''ninguem@movemarias.dev'' ''segredo'') w0)
     = Inr (Api False ''Email ou senha invalidos'' NoData, 401)
   \<and> fst (login toy_bcrypt Config 1000 (Loaded ''ana@movemarias.dev'' ''segredo'') w0)
     = Inr (Api False ''Usuario inativo. Entre em contato com o administrador.'' NoData, 401)"
proof -
  have a: "find_by_email (usuarios w0) ''ninguem@movemarias.dev'' = None"
    by (simp add: example_defs string_defs)
  have b: "find_by_email (usuarios w0) ''maria@movemarias.dev'' = Some maria"
    by (simp add: example_defs string_defs)
  have c: "ativo maria" by (simp add: maria_def)
  have d: "\<not> check_password toy_bcrypt maria ''errada''"
    by (simp add: check_password_def example_defs)
  have e: "find_by_email (usuarios w0) ''ana@movemarias.dev'' = Some ana"
    by (simp add: example_defs string_defs)
  have f: "\<not> ativo ana" by (simp add: ana_def)
  show ?thesis
    using a b c d e f
      login_invalid_credentials_uniform [OF a b c d e f,
        where cfg = Config and t = 1000 and ?senha1.0 = "''segredo''" and ?senha3.0 = "''segredo''"]
    by simp
qed

subsection \<open>Revocation\<close>

lemma logout_ok:
  "fst (logout t b w) = Inr (Api True ''Logout realizado com sucesso'' NoData, 200)
     \<longleftrightarrow> (\<exists>c. jwt_required False b t w = Inr c)"
  by (auto simp: logout_def jwt_required_def missing_token_callback_def invalid_token_callback_def
      handle_expired_token_error_def user_lookup_error_def
      split: sum.splits bearer.splits if_splits option.splits)

lemma jwt_required_Signed: "jwt_required k b t w = Inr c \<Longrightarrow> b = Signed c"
  by (auto simp: jwt_required_def split: bearer.splits if_splits option.splits)

lemma logout_frame:
  "usuarios (snd (logout t b w)) = usuarios w \<and> issued (snd (logout t b w)) = issued w"
  by (simp add: logout_def log_security_event_def split: sum.splits)

text \<open>
  C2. Once a token's \<open>jti\<close> is revoked by \<open>logout\<close>, every later protected request with
  that token should be rejected as revoked, whichever endpoint it goes to. The hook
  \<open>check_if_token_revoked\<close> returns at once for an endpoint whose name contains
  \<^verbatim>\<open>auth\<close>, which is every route that \<^verbatim>\<open>@jwt_required\<close> protects, and of these only
  \<open>refresh\<close> looks at \<open>revoked_tokens\<close> itself. After a logout with \<open>tok_a\<close>, the same
  token is reported valid by \<^verbatim>\<open>/api/auth/verify-token\<close> and still reads the account at
  \<^verbatim>\<open>/api/auth/me\<close>; it would be so even if the hook were handed the token's claims
  (the last two conjuncts).
\<close>

theorem revoked_token_still_accepted:
  "fst (logout 2000 (Signed tok_a) w0)
     = Inr (Api True ''Logout realizado com sucesso'' NoData, 200)
   \<and> jti tok_a \<in> revoked_tokens (snd (logout 2000 (Signed tok_a) w0))
   \<and> fst (handle_request toy_bcrypt Config (snd (logout 2000 (Signed tok_a) w0))
        (token_request GET_verify_token tok_a 3000))
     = (Api True ''Token valido'' (ValidData ''u-maria''), 200)
   \<and> fst (handle_request toy_bcrypt Config (snd (logout 2000 (Signed tok_a) w0))
        (token_request GET_me tok_a 3000))
     = (Api True ''Dados do usuario obtidos com sucesso'' (UserData maria), 200)
   \<and> fst (handle_request toy_bcrypt Config (snd (logout 2000 (Signed tok_a) w0))
        ((token_request GET_verify_token tok_a 3000)\<lparr>jwt_in_context := Some tok_a\<rparr>))
     = (Api True ''Token valido'' (ValidData ''u-maria''), 200)
   \<and> fst (handle_request toy_bcrypt Config (snd (logout 2000 (Signed tok_a) w0))
        ((token_request GET_me tok_a 3000)\<lparr>jwt_in_context := Some tok_a\<rparr>))
     = (Api True ''Dados do usuario obtidos com sucesso'' (UserData maria), 200)"
  by (simp add: example_defs string_defs route_defs request_defs)

text \<open>
  C7. Revoking a \<open>jti\<close> twice through \<open>logout\<close> leaves the registry as one revocation
  does: after an accepted logout, a second logout with the same token, at any time, leaves
  \<open>revoked_tokens\<close> as it was, and every later run of the hook answers the same.
\<close>

theorem logout_twice:
  assumes "fst (logout t1 b w) = Inr (Api True ''Logout realizado com sucesso'' NoData, 200)"
  shows "revoked_tokens (snd (logout t2 b (snd (logout t1 b w)))) = revoked_tokens (snd (logout t1 b w))
       \<and> (\<forall>r. check_if_token_revoked (snd (logout t2 b (snd (logout t1 b w)))) r
               = check_if_token_revoked (snd (logout t1 b w)) r)"
proof -
  from assms obtain c where c: "jwt_required False b t1 w = Inr c"
    by (auto simp: logout_ok)
  then have b: "b = Signed c" by (rule jwt_required_Signed)
  have "jwt_required False b t2 (snd (logout t1 b w)) = Inr c
      \<or> (\<exists>r. jwt_required False b t2 (snd (logout t1 b w)) = Inl r)"
    using b by (auto simp: jwt_required_def split: option.splits)
  then have eq: "revoked_tokens (snd (logout t2 b (snd (logout t1 b w)))) = revoked_tokens (snd (logout t1 b w))"
    using c by (auto simp: logout_revoked)
  show ?thesis unfolding check_if_token_revoked_def eq by simp
qed

theorem logout_twice_witness:
  "fst (logout 2000 (Signed tok_a) w0) = Inr (Api True ''Logout realizado com sucesso'' NoData, 200)
   \<and> fst (logout 2100 (Signed tok_a) (snd (logout 2000 (Signed tok_a) w0)))
       = Inr (Api True ''Logout realizado com sucesso'' NoData, 200)
   \<and> revoked_tokens (snd (logout 2100 (Signed tok_a) (snd (logout 2000 (Signed tok_a) w0)))) = {0}
   \<and> revoked_tokens (snd (logout 2000 (Signed tok_a) w0)) = {0}"
proof -
  have a: "fst (logout 2000 (Signed tok_a) w0) = Inr (Api True ''Logout realizado com sucesso'' NoData, 200)"
    by (simp add: example_defs route_defs)
  have b: "revoked_tokens (snd (logout 2000 (Signed tok_a) w0)) = {0}"
    by (simp add: example_defs route_defs)
  have c: "fst (logout 2100 (Signed tok_a) (snd (logout 2000 (Signed tok_a) w0)))
       = Inr (Api True ''Logout realizado com sucesso'' NoData, 200)"
    by (simp add: example_defs route_defs)
  show ?thesis using a b c logout_twice [OF a, of 2100] by simp
qed

text \<open>
  C10. The registry only grows: a \<open>jti\<close> in \<open>revoked_tokens\<close> is still there after any
  sequence of requests, whatever routes they reach (login, refresh, logout, the token
  checks, password change, or another blueprint).
\<close>

theorem revoked_tokens_only_grow:
  "j \<in> revoked_tokens w \<Longrightarrow> j \<in> revoked_tokens (run B cfg w rs)"
  using run_revoked [of w B cfg rs] by auto

theorem revoked_tokens_only_grow_witness:
  "0 \<in> revoked_tokens (snd (logout 2000 (Signed tok_a) w0))
   \<and> 0 \<in> revoked_tokens
       (run toy_bcrypt Map.empty (snd (logout 2000 (Signed tok_a) w0))
          [login_request ''maria@movemarias.dev'' ''segredo'' 2100,
           token_request POST_refresh tok_r 2200,
           token_request POST_logout tok_a 2300,
           token_request GET_verify_token tok_a 2400])"
proof -
  have a: "0 \<in> revoked_tokens (snd (logout 2000 (Signed tok_a) w0))"
    by (simp add: example_defs route_defs)
  show ?thesis
    using a revoked_tokens_only_grow [OF a, where B = toy_bcrypt and cfg = Map.empty
        and rs = "[login_request ''maria@movemarias.dev'' ''segredo'' 2100,
           token_request POST_refresh tok_r 2200,
           token_request POST_logout tok_a 2300,
           token_request GET_verify_token tok_a 2400]"]
    by simp
qed

subsection \<open>Logout and the sibling refresh token\<close>

lemma login_issued_pair:
  assumes "issued (snd (login B cfg t d w)) = issued w @ [a, r]"
  shows "jti a = length (issued w) \<and> jti r = Suc (length (issued w))
       \<and> ttype a = Access \<and> ttype r = Refresh
       \<and> (\<exists>da. timedelta_hours (config_get cfg ''JWT_ACCESS_TOKEN_EXPIRES'' (IntVal 24)) = Inr da)"
  using assms
  by (auto simp: login_def update_last_login_def create_access_token_def create_refresh_token_def
      create_token_def log_security_event_def Let_def
      split: login_json.splits option.splits sum.splits prod.splits if_splits)

lemma refresh_depends:
  assumes "usuarios w1 = usuarios w" and "issued w1 = issued w"
    and "jti c \<in> revoked_tokens w1 \<longleftrightarrow> jti c \<in> revoked_tokens w"
  shows "fst (refresh cfg t (Signed c) w1) = fst (refresh cfg t (Signed c) w)"
  using assms
  by (simp add: refresh_def jwt_required_def user_lookup_callback_def create_access_token_def
      create_token_def Let_def split: option.splits sum.splits)

text \<open>
  C6. Let \<open>a\<close> and \<open>r\<close> be the access and the refresh token one login minted together.
  A logout presenting \<open>a\<close> adds no \<open>jti\<close> other than \<open>a\<close>'s to the registry, \<open>r\<close>'s \<open>jti\<close>
  is in the registry after the logout only if it was before, and \<open>refresh\<close> with \<open>r\<close>
  answers after the logout what it answers without it. In particular, before \<open>r\<close> expires
  and while its account is present and active, \<open>refresh\<close> with \<open>r\<close> still succeeds with a
  new access token. (The lifetime setting is a number here, since the login that minted
  the pair went through \<^verbatim>\<open>timedelta(hours=...)\<close> with it.)
\<close>

theorem logout_leaves_refresh_token:
  assumes "issued (snd (login B cfg t0 d w')) = issued w' @ [a, r]"
  shows "revoked_tokens (snd (logout t1 (Signed a) w)) \<subseteq> insert (jti a) (revoked_tokens w)
       \<and> (jti r \<in> revoked_tokens (snd (logout t1 (Signed a) w)) \<longleftrightarrow> jti r \<in> revoked_tokens w)
       \<and> fst (refresh cfg t2 (Signed r) (snd (logout t1 (Signed a) w)))
           = fst (refresh cfg t2 (Signed r) w)
       \<and> (t2 < exp r \<longrightarrow> jti r \<notin> revoked_tokens w \<longrightarrow>
            find_by_id (usuarios w) (sub r) = Some u \<longrightarrow> ativo u \<longrightarrow>
            (\<exists>tok. fst (refresh cfg t2 (Signed r) (snd (logout t1 (Signed a) w)))
                     = Inr (Api True ''Token renovado com sucesso'' (TokenData tok), 200)
                  \<and> ttype tok = Access \<and> sub tok = sub r))"
proof -
  from login_issued_pair [OF assms]
  obtain da where ne: "jti a \<noteq> jti r" and ty: "ttype r = Refresh"
    and da: "timedelta_hours (config_get cfg ''JWT_ACCESS_TOKEN_EXPIRES'' (IntVal 24)) = Inr da"
    by auto
  have only: "revoked_tokens (snd (logout t1 (Signed a) w)) \<subseteq> insert (jti a) (revoked_tokens w)"
    by (auto simp: logout_revoked jwt_required_def split: sum.splits if_splits option.splits)
  have mono: "revoked_tokens w \<subseteq> revoked_tokens (snd (logout t1 (Signed a) w))"
    by (auto simp: logout_revoked split: sum.splits)
  have same: "jti r \<in> revoked_tokens (snd (logout t1 (Signed a) w)) \<longleftrightarrow> jti r \<in> revoked_tokens w"
    using only mono ne by auto
  have eq: "fst (refresh cfg t2 (Signed r) (snd (logout t1 (Signed a) w)))
           = fst (refresh cfg t2 (Signed r) w)"
    using logout_frame [of t1 "Signed a" w] same by (intro refresh_depends) auto
  have ok: "t2 < exp r \<longrightarrow> jti r \<notin> revoked_tokens w \<longrightarrow>
            find_by_id (usuarios w) (sub r) = Some u \<longrightarrow> ativo u \<longrightarrow>
            (\<exists>tok. fst (refresh cfg t2 (Signed r) w)
                     = Inr (Api True ''Token renovado com sucesso'' (TokenData tok), 200)
                  \<and> ttype tok = Access \<and> sub tok = sub r)"
    using ty da
    by (simp add: refresh_def jwt_required_def user_lookup_callback_def find_by_id_def
        create_access_token_def create_token_def Let_def)
  from only same eq ok show ?thesis by simp
qed

theorem logout_leaves_refresh_token_witness:
  "issued (snd (login toy_bcrypt Map.empty 1000 (Loaded ''maria@movemarias.dev'' ''segredo'') w0))
     = issued w0 @ [tok_a, tok_r]
   \<and> revoked_tokens (snd (logout 2000 (Signed tok_a) w0)) = {jti tok_a}
   \<and> find_by_id (usuarios w0) (sub tok_r) = Some maria \<and> ativo maria
   \<and> fst (refresh Map.empty 3000 (Signed tok_r) (snd (logout 2000 (Signed tok_a) w0)))
     = Inr (Api True ''Token renovado com sucesso''
         (TokenData \<lparr>jti = 0, sub = ''u-maria'', ttype = Access, iat = 3000, exp = 3000 + 24 * 3600\<rparr>), 200)"
proof -
  have a: "issued (snd (login toy_bcrypt Map.empty 1000 (Loaded ''maria@movemarias.dev'' ''segredo'') w0))
     = issued w0 @ [tok_a, tok_r]"
    by (simp add: example_defs string_defs route_defs Let_def)
  have b: "revoked_tokens (snd (logout 2000 (Signed tok_a) w0)) = {jti tok_a}"
    by (simp add: example_defs route_defs)
  have c: "find_by_id (usuarios w0) (sub tok_r) = Some maria \<and> ativo maria"
    by (simp add: example_defs string_defs)
  have d: "fst (refresh Map.empty 3000 (Signed tok_r) w0)
     = Inr (Api True ''Token renovado com sucesso''
         (TokenData \<lparr>jti = 0, sub = ''u-maria'', ttype = Access, iat = 3000, exp = 3000 + 24 * 3600\<rparr>), 200)"
    by (simp add: example_defs string_defs route_defs Let_def)
  show ?thesis
    using a b c d
      logout_leaves_refresh_token [OF a, where ?t1.0 = 2000 and ?t2.0 = 3000
        and w = w0 and u = maria]
    by simp
qed

subsection \<open>Expiry of a lock\<close>

lemma find_map: "find P (map f xs) = map_option f (find (P \<circ> f) xs)"
  by (induction xs) auto

text \<open>
  \<open>login\<close> reads \<open>email\<close>, \<open>ativo\<close>, \<open>senha_hash\<close> and \<open>usuario_id\<close> of an account and no
  other column: its answer does not depend on \<open>tentativas_login\<close> or \<open>bloqueado_ate\<close>.
\<close>

lemma login_depends:
  assumes "\<And>x. email (f x) = email x" and "\<And>x. ativo (f x) = ativo x"
    and "\<And>x. senha_hash (f x) = senha_hash x" and "\<And>x. usuario_id (f x) = usuario_id x"
  shows "fst (login B cfg t d (w\<lparr>usuarios := map f (usuarios w)\<rparr>)) = fst (login B cfg t d w)"
  using assms
  by (auto simp: login_def find_by_email_def find_map comp_def check_password_def
      update_last_login_def create_access_token_def create_refresh_token_def create_token_def
      Let_def split: login_json.splits option.splits sum.splits prod.splits)

text \<open>\<open>is_blocked\<close> is false at every time from \<open>bloqueado_ate\<close> on.\<close>

lemma is_blocked_expired:
  "bloqueado_ate u = Some until \<Longrightarrow> until \<le> t \<Longrightarrow> \<not> is_blocked t u"
  by (simp add: is_blocked_def)

text \<open>
  C8. Once the lock of an account has run out, \<open>is_blocked\<close> should be false and the next
  login attempt should be evaluated under the rules for an active account: a failure
  counts, a success resets. \<open>is_blocked\<close> does its part (it is false at time 2000 for
  a lock that ran out at 1900), but \<open>login\<close> calls neither it nor
  \<open>increment_login_attempts\<close> nor \<open>reset_login_attempts\<close>. A wrong password after the
  lock has run out leaves the counter at 5, where the model class would count 6 and lock
  again until 2900; the right password ends in an exception (\<open>TypeError\<close> under \<open>Config\<close>,
  \<open>AttributeError\<close> under numeric lifetimes) and leaves counter and lock in place, where
  the model class would reset them. This is the defect of C1 and C3 seen after the lock has
  run out.
\<close>

theorem expired_lock_login_skips_active_rules:
  "bloqueado_ate maria_bloqueada = Some 1900
   \<and> \<not> is_blocked 2000 maria_bloqueada
   \<and> increment_login_attempts Config 2000 maria_bloqueada
       = Inr (maria_bloqueada\<lparr>tentativas_login := Some 6, bloqueado_ate := Some 2900\<rparr>)
   \<and> login toy_bcrypt Config 2000 (Loaded ''maria@movemarias.dev'' ''errada'') w_bloqueada
       = (Inr (Api False ''Email ou senha invalidos'' NoData, 401),
          w_bloqueada\<lparr>security_log :=
            [SecurityEvent 2000 ''login_failed''
               [(''email'', ''maria@movemarias.dev''), (''reason'', ''wrong_password'')]]\<rparr>)
   \<and> reset_login_attempts 2000 maria_bloqueada
       = maria\<lparr>tentativas_login := Some 0, bloqueado_ate := None, ultimo_login := Some 2000\<rparr>
   \<and> login toy_bcrypt Config 2000 (Loaded ''maria@movemarias.dev'' ''segredo'') w_bloqueada
       = (Inl TypeError, w_bloqueada)
   \<and> fst (login toy_bcrypt numeric_config 2000 (Loaded ''maria@movemarias.dev'' ''segredo'')
        w_bloqueada) = Inl AttributeError
   \<and> usuarios (snd (login toy_bcrypt numeric_config 2000
        (Loaded ''maria@movemarias.dev'' ''segredo'') w_bloqueada)) = [maria_bloqueada, ana]"
  by (simp add: example_defs string_defs route_defs is_blocked_def increment_login_attempts_def
      reset_login_attempts_def timedelta_minutes_def Config_def Let_def)

subsection \<open>Passwords\<close>

text \<open>
  C9. After \<open>set_password\<close> has stored the hash of a password, \<open>check_password\<close> with the
  same password on that account is true, given that the hashing library accepts the hashes
  it produces; \<open>set_password\<close> changes \<open>senha_hash\<close> only. \<open>check_password\<close> returns a
  truth value and no account: it reads \<open>senha_hash\<close> and writes nothing.
\<close>

theorem set_password_check_password:
  assumes "bcrypt_contract B" and "set_password B salt senha u = Inr u'"
  shows "check_password B u' senha \<and> u' = u\<lparr>senha_hash := senha_hash u'\<rparr>"
  using assms
  by (auto simp: bcrypt_contract_def set_password_def check_password_def split: sum.splits)

theorem set_password_check_password_witness:
  "bcrypt_contract toy_bcrypt
   \<and> set_password toy_bcrypt ''sal'' ''novasenha'' maria = Inr (maria\<lparr>senha_hash := ''$2b$novasenha''\<rparr>)
   \<and> check_password toy_bcrypt (maria\<lparr>senha_hash := ''$2b$novasenha''\<rparr>) ''novasenha''
   \<and> \<not> check_password toy_bcrypt (maria\<lparr>senha_hash := ''$2b$novasenha''\<rparr>) ''segredo''"
proof -
  have a: "bcrypt_contract toy_bcrypt"
    by (auto simp: bcrypt_contract_def toy_bcrypt_def split: if_splits)
  have b: "set_password toy_bcrypt ''sal'' ''novasenha'' maria = Inr (maria\<lparr>senha_hash := ''$2b$novasenha''\<rparr>)"
    by (simp add: set_password_def toy_bcrypt_def)
  have c: "\<not> check_password toy_bcrypt (maria\<lparr>senha_hash := ''$2b$novasenha''\<rparr>) ''segredo''"
    by (simp add: check_password_def toy_bcrypt_def)
  show ?thesis using a b c set_password_check_password [OF a b] by simp
qed

end
